theory Spec2Isabelle
  imports Main
begin

section \<open>Data model of nexus.py\<close>

subsection \<open>Python strings\<close>

text \<open>
  A Python \<open>str\<close> is a sequence of Unicode code points and \<open>len\<close> counts code points,
  so a string is a list of code points here, not a list of bytes. \<open>lit\<close> embeds an
  ASCII literal; the accented letters of the source's messages are written as their code
  points (227 is a-tilde, 225 is a-acute, 10 is the newline, 39 the single quote).
\<close>

type_synonym str = "nat list"

definition lit :: "string \<Rightarrow> str" where
  "lit s = map of_char s"

definition newline :: str where
  "newline = [10]"

subsection \<open>Exceptions\<close>

text \<open>
  Both handlers of the source are \<open>except Exception as e\<close>. Such a handler catches the
  instances of \<open>Exception\<close> (paramiko's and the socket's errors, timeouts,
  \<open>UnicodeDecodeError\<close>, \<open>AttributeError\<close>) and lets pass what derives from
  \<open>BaseException\<close> only (\<open>KeyboardInterrupt\<close>, \<open>SystemExit\<close>). The payload is
  \<open>str(e)\<close>, which the f-strings of the log messages interpolate.
\<close>

datatype fault = Exception str | NonException str

subsection \<open>The world outside: paramiko and the logger\<close>

datatype level = INFO | WARNING | ERROR

text \<open>
  What the program does to the world is recorded as a trace: a record written by the
  logger, a session opened by \<open>ssh.connect\<close>, a command passed to
  \<open>ssh.exec_command\<close> with its timeout, and a call of \<open>ssh.close()\<close>.
\<close>

datatype event = Log level str | Open str | Exec str int | Close

text \<open>
  The three stream objects returned by \<open>exec_command\<close>: reading and decoding each of
  \<open>stdout\<close> and \<open>stderr\<close> either raises or gives a \<open>str\<close>.
\<close>

record streams =
  stdout_read :: "fault + str"
  stderr_read :: "fault + str"

text \<open>
  The library is a parameter. \<open>ssh_connect\<close> stands for lines 41 to 43 (building the
  client, setting the host key policy, \<open>ssh.connect\<close> with \<open>look_for_keys=False\<close>
  and \<open>timeout=10\<close>); \<open>exec_command\<close> for \<open>ssh.exec_command(command, timeout=timeout)\<close>.
  The answer to a command is a function of the command text and the timeout; the
  commands of the fixed list are pairwise distinct and each is sent once, so every run
  of the collector is the run against some such library. Logging and \<open>ssh.close()\<close>
  return normally.
\<close>

record paramiko =
  ssh_connect :: "str \<Rightarrow> str \<Rightarrow> str \<Rightarrow> fault + unit"
  exec_command :: "str \<Rightarrow> int \<Rightarrow> fault + streams"

datatype ssh_client = SSHClient

text \<open>Whether the session is open after a trace: opened by \<open>Open\<close>, closed by \<open>Close\<close>.\<close>

fun session_step :: "bool \<Rightarrow> event \<Rightarrow> bool" where
  "session_step b (Open ip) = True"
| "session_step b Close = False"
| "session_step b (Exec command timeout) = b"
| "session_step b (Log lvl msg) = b"

definition session_open :: "event list \<Rightarrow> bool" where
  "session_open tr = foldl session_step False tr"

subsection \<open>The report: an insertion-ordered dict\<close>

text \<open>
  \<open>data[cmd] = output\<close> on a Python dict: a new key goes to the end, an existing key
  keeps its place and gets the new value.
\<close>

type_synonym report = "(str \<times> str) list"

fun dict_setitem :: "report \<Rightarrow> str \<Rightarrow> str \<Rightarrow> report" where
  "dict_setitem [] k v = [(k, v)]"
| "dict_setitem (p # ps) k v = (if fst p = k then (k, v) # ps else p # dict_setitem ps k v)"

section \<open>The functions of nexus.py\<close>

subsection \<open>connect_switch\<close>

definition connect_switch ::
  "paramiko \<Rightarrow> str \<Rightarrow> str \<Rightarrow> str \<Rightarrow> event list \<Rightarrow> (fault + ssh_client option) \<times> event list" where
  "connect_switch env ip username password tr =
     (case ssh_connect env ip username password of
        Inr _ \<Rightarrow>
          (Inr (Some SSHClient),
           tr @ [Open ip, Log INFO (lit ''Conex'' @ [227] @ lit ''o estabelecida com '' @ ip)])
      | Inl (Exception e) \<Rightarrow>
          (Inr None,
           tr @ [Log ERROR (lit ''Erro ao conectar ao switch '' @ ip @ lit '': '' @ e)])
      | Inl (NonException e) \<Rightarrow> (Inl (NonException e), tr))"

subsection \<open>execute_command\<close>

text \<open>
  The body of the \<open>try\<close>. On \<open>None\<close> the attribute access \<open>ssh.exec_command\<close> raises
  \<open>AttributeError\<close> before anything is sent. \<open>if error:\<close> is true of a non-empty
  string.
\<close>

definition execute_command_try ::
  "paramiko \<Rightarrow> ssh_client option \<Rightarrow> str \<Rightarrow> int \<Rightarrow> event list \<Rightarrow> (fault + str) \<times> event list" where
  "execute_command_try env ssh command timeout tr =
     (case ssh of
        None \<Rightarrow>
          (Inl (Exception ([39] @ lit ''NoneType'' @ [39] @ lit '' object has no attribute '' @
                           [39] @ lit ''exec_command'' @ [39])), tr)
      | Some _ \<Rightarrow>
          (case exec_command env command timeout of
             Inl f \<Rightarrow> (Inl f, tr @ [Exec command timeout])
           | Inr st \<Rightarrow>
               (case stdout_read st of
                  Inl f \<Rightarrow> (Inl f, tr @ [Exec command timeout])
                | Inr output \<Rightarrow>
                    (case stderr_read st of
                       Inl f \<Rightarrow> (Inl f, tr @ [Exec command timeout])
                     | Inr error \<Rightarrow>
                         (Inr output,
                          if error \<noteq> []
                          then tr @ [Exec command timeout,
                                     Log WARNING (lit ''Erro ao executar '' @ command @ lit '': '' @ error)]
                          else tr @ [Exec command timeout])))))"

definition execute_command ::
  "paramiko \<Rightarrow> ssh_client option \<Rightarrow> str \<Rightarrow> int \<Rightarrow> event list \<Rightarrow> (fault + str option) \<times> event list" where
  "execute_command env ssh command timeout tr =
     (case execute_command_try env ssh command timeout tr of
        (Inr output, tr') \<Rightarrow> (Inr (Some output), tr')
      | (Inl (Exception e), tr') \<Rightarrow>
          (Inr None,
           tr' @ [Log ERROR (lit ''Erro ao executar comando '' @ command @ lit '': '' @ e)])
      | (Inl (NonException e), tr') \<Rightarrow> (Inl (NonException e), tr'))"

subsection \<open>collect_switch_data\<close>

definition commands :: "str list" where
  "commands =
     [lit ''show version'',
      lit ''show system resources'',
      lit ''show environment'',
      lit ''show logging log | last 100'',
      lit ''show interface status'',
      lit ''show ip interface brief'',
      lit ''show processes cpu history'']"

text \<open>
  The \<open>for\<close> loop of lines 101 to 107, with \<open>execute_command\<close>'s default timeout of 30.
  A fault that \<open>execute_command\<close> lets pass ends the loop.
\<close>

fun collect_loop ::
  "paramiko \<Rightarrow> ssh_client \<Rightarrow> str list \<Rightarrow> report \<Rightarrow> event list \<Rightarrow> (fault + report) \<times> event list" where
  "collect_loop env ssh [] data tr = (Inr data, tr)"
| "collect_loop env ssh (cmd # cmds) data tr =
     (case execute_command env (Some ssh) cmd 30
             (tr @ [Log INFO (lit ''Executando comando: '' @ cmd)]) of
        (Inl f, tr') \<Rightarrow> (Inl f, tr')
      | (Inr (Some output), tr') \<Rightarrow> collect_loop env ssh cmds (dict_setitem data cmd output) tr'
      | (Inr None, tr') \<Rightarrow>
          collect_loop env ssh cmds data
            (tr' @ [Log WARNING (lit ''Comando '' @ cmd @ lit '' falhou'')]))"

text \<open>
  \<open>if not ssh\<close> holds of \<open>None\<close> only. The \<open>finally\<close> block runs however the loop
  ended and then the fault, if any, goes on to the caller. \<open>data if data else None\<close>:
  an empty dict is false.
\<close>

definition collect_switch_data ::
  "paramiko \<Rightarrow> str \<Rightarrow> str \<Rightarrow> str \<Rightarrow> event list \<Rightarrow> (fault + report option) \<times> event list" where
  "collect_switch_data env ip username password tr =
     (case connect_switch env ip username password tr of
        (Inl f, tr1) \<Rightarrow> (Inl f, tr1)
      | (Inr None, tr1) \<Rightarrow> (Inr None, tr1)
      | (Inr (Some ssh), tr1) \<Rightarrow>
          (case collect_loop env ssh commands [] tr1 of
             (r, tr2) \<Rightarrow>
               (case r of
                  Inl f \<Rightarrow> (Inl f, tr2 @ [Close, Log INFO (lit ''Conex'' @ [227] @ lit ''o SSH fechada'')])
                | Inr data \<Rightarrow>
                    (Inr (if data \<noteq> [] then Some data else None),
                     tr2 @ [Close, Log INFO (lit ''Conex'' @ [227] @ lit ''o SSH fechada'')]))))"

subsection \<open>truncate_text and the formatting of line 166\<close>

text \<open>
  \<open>text[:n]\<close>: the first \<open>n\<close> characters when \<open>n\<close> is not negative, all but the last
  \<open>-n\<close> characters when it is.
\<close>

definition slice_to :: "str \<Rightarrow> int \<Rightarrow> str" where
  "slice_to text n =
     (if n < 0 then take (length text - nat (- n)) text else take (nat n) text)"

definition truncation_marker :: str where
  "truncation_marker =
     newline @ newline @ lit ''[TRUNCADO: dados demais para an'' @ [225] @ lit ''lise completa]''"

definition truncate_text :: "str \<Rightarrow> int \<Rightarrow> str" where
  "truncate_text text max_chars =
     (if int (length text) > max_chars
      then slice_to text max_chars @ truncation_marker
      else text)"

fun join :: "str \<Rightarrow> str list \<Rightarrow> str" where
  "join sep [] = []"
| "join sep [x] = x"
| "join sep (x # y # ys) = x @ sep @ join sep (y # ys)"

definition formatted_data :: "report \<Rightarrow> str" where
  "formatted_data data =
     join newline (map (\<lambda>(cmd, output). cmd @ lit '':'' @ newline @ output @ newline) data)"

section \<open>Notions used to state the properties\<close>

text \<open>
  What \<open>execute_command\<close> returns for a command of the collector (default timeout 30):
  \<open>Inr (Some output)\<close>, \<open>Inr None\<close>, or \<open>Inl\<close> a fault it lets pass. By
  \<open>fst_execute_command_client\<close> below the trace and the client do not matter.
\<close>

definition executor_result :: "paramiko \<Rightarrow> str \<Rightarrow> fault + str option" where
  "executor_result env cmd = fst (execute_command env (Some SSHClient) cmd 30 [])"

text \<open>The command succeeded or warned: the executor returned a string, not \<open>None\<close>.\<close>

definition gave_output :: "paramiko \<Rightarrow> str \<Rightarrow> bool" where
  "gave_output env cmd = (case executor_result env cmd of Inr (Some out) \<Rightarrow> True | _ \<Rightarrow> False)"

text \<open>The commands of a list that gave output, each with its output, in the list's order.\<close>

definition entries :: "paramiko \<Rightarrow> str list \<Rightarrow> report" where
  "entries env cmds =
     concat (map (\<lambda>cmd. case executor_result env cmd of Inr (Some out) \<Rightarrow> [(cmd, out)] | _ \<Rightarrow> []) cmds)"

text \<open>
  What the remote side does with one command. \<open>completes\<close>: the dispatch and both reads
  return, with the decoded output and error texts. \<open>faults_with\<close>: the first fault met,
  at the dispatch, at reading \<open>stdout\<close>, or at reading \<open>stderr\<close>.
\<close>

definition completes :: "paramiko \<Rightarrow> str \<Rightarrow> int \<Rightarrow> str \<Rightarrow> str \<Rightarrow> bool" where
  "completes env cmd t out err =
     (case exec_command env cmd t of
        Inl f \<Rightarrow> False
      | Inr st \<Rightarrow> stdout_read st = Inr out \<and> stderr_read st = Inr err)"

definition faults_with :: "paramiko \<Rightarrow> str \<Rightarrow> int \<Rightarrow> fault \<Rightarrow> bool" where
  "faults_with env cmd t f =
     (case exec_command env cmd t of
        Inl g \<Rightarrow> g = f
      | Inr st \<Rightarrow>
          (case stdout_read st of
             Inl g \<Rightarrow> g = f
           | Inr out \<Rightarrow> (case stderr_read st of Inl g \<Rightarrow> g = f | Inr err \<Rightarrow> False)))"

subsection \<open>Example libraries\<close>

text \<open>Every command times out.\<close>

definition timeout_lib :: paramiko where
  "timeout_lib =
     \<lparr>ssh_connect = (\<lambda>ip username password. Inr ()),
      exec_command = (\<lambda>command timeout. Inl (Exception (lit ''timed out'')))\<rparr>"

text \<open>
  The scenario of the specification: \<open>show version\<close> answers, \<open>show environment\<close>
  times out; the other commands answer with a notice on the error stream.
\<close>

definition scenario_lib :: paramiko where
  "scenario_lib =
     \<lparr>ssh_connect = (\<lambda>ip username password. Inr ()),
      exec_command = (\<lambda>command timeout.
        if command = lit ''show version''
        then Inr \<lparr>stdout_read = Inr (lit ''7.0(3)''), stderr_read = Inr []\<rparr>
        else if command = lit ''show environment''
        then Inl (Exception (lit ''timed out''))
        else Inr \<lparr>stdout_read = Inr (lit ''ok''), stderr_read = Inr (lit ''% truncated'')\<rparr>)\<rparr>"

text \<open>The operator interrupts the program while \<open>show environment\<close> runs.\<close>

definition interrupted_lib :: paramiko where
  "interrupted_lib =
     \<lparr>ssh_connect = (\<lambda>ip username password. Inr ()),
      exec_command = (\<lambda>command timeout.
        if command = lit ''show environment''
        then Inl (NonException (lit ''KeyboardInterrupt''))
        else Inr \<lparr>stdout_read = Inr (lit ''ok''), stderr_read = Inr []\<rparr>)\<rparr>"

text \<open>The switch rejects the password.\<close>

definition refusing_lib :: paramiko where
  "refusing_lib =
     \<lparr>ssh_connect = (\<lambda>ip username password. Inl (Exception (lit ''Authentication failed.''))),
      exec_command = (\<lambda>command timeout. Inr \<lparr>stdout_read = Inr (lit ''ok''), stderr_read = Inr []\<rparr>)\<rparr>"

text \<open>Every command answers \<open>ok\<close>, with nothing on the error stream.\<close>

definition quiet_lib :: paramiko where
  "quiet_lib =
     \<lparr>ssh_connect = (\<lambda>ip username password. Inr ()),
      exec_command = (\<lambda>command timeout. Inr \<lparr>stdout_read = Inr (lit ''ok''), stderr_read = Inr []\<rparr>)\<rparr>"

text \<open>The same answers, with a notice on the error stream.\<close>

definition noisy_lib :: paramiko where
  "noisy_lib =
     \<lparr>ssh_connect = (\<lambda>ip username password. Inr ()),
      exec_command = (\<lambda>command timeout.
        Inr \<lparr>stdout_read = Inr (lit ''ok''), stderr_read = Inr (lit ''% truncated'')\<rparr>)\<rparr>"

text \<open>The operator interrupts the program during any call of the library.\<close>

definition aborted_lib :: paramiko where
  "aborted_lib =
     \<lparr>ssh_connect = (\<lambda>ip username password. Inl (NonException (lit ''KeyboardInterrupt''))),
      exec_command = (\<lambda>command timeout. Inl (NonException (lit ''KeyboardInterrupt'')))\<rparr>"


section \<open>Lemmas on the executor and the loop\<close>

lemma execute_command_none:
  "execute_command env None c t tr =
     (Inr None, tr @ [Log ERROR (lit ''Erro ao executar comando '' @ c @ lit '': '' @
        ([39] @ lit ''NoneType'' @ [39] @ lit '' object has no attribute '' @ [39] @ lit ''exec_command'' @ [39]))])"
  by (simp add: execute_command_def execute_command_try_def)

lemma execute_command_dispatch_fault:
  "exec_command env c t = Inl (Exception e) \<Longrightarrow>
   execute_command env (Some ssh) c t tr =
     (Inr None, tr @ [Exec c t, Log ERROR (lit ''Erro ao executar comando '' @ c @ lit '': '' @ e)])"
  by (simp add: execute_command_def execute_command_try_def)

lemma execute_command_stdout_fault:
  "exec_command env c t = Inr st \<Longrightarrow> stdout_read st = Inl (Exception e) \<Longrightarrow>
   execute_command env (Some ssh) c t tr =
     (Inr None, tr @ [Exec c t, Log ERROR (lit ''Erro ao executar comando '' @ c @ lit '': '' @ e)])"
  by (simp add: execute_command_def execute_command_try_def)

lemma execute_command_stderr_fault:
  "exec_command env c t = Inr st \<Longrightarrow> stdout_read st = Inr out \<Longrightarrow> stderr_read st = Inl (Exception e) \<Longrightarrow>
   execute_command env (Some ssh) c t tr =
     (Inr None, tr @ [Exec c t, Log ERROR (lit ''Erro ao executar comando '' @ c @ lit '': '' @ e)])"
  by (simp add: execute_command_def execute_command_try_def)

lemma execute_command_ok:
  "exec_command env c t = Inr st \<Longrightarrow> stdout_read st = Inr out \<Longrightarrow> stderr_read st = Inr [] \<Longrightarrow>
   execute_command env (Some ssh) c t tr = (Inr (Some out), tr @ [Exec c t])"
  by (simp add: execute_command_def execute_command_try_def)

lemma execute_command_warning:
  "exec_command env c t = Inr st \<Longrightarrow> stdout_read st = Inr out \<Longrightarrow> stderr_read st = Inr err \<Longrightarrow> err \<noteq> [] \<Longrightarrow>
   execute_command env (Some ssh) c t tr =
     (Inr (Some out), tr @ [Exec c t, Log WARNING (lit ''Erro ao executar '' @ c @ lit '': '' @ err)])"
  by (simp add: execute_command_def execute_command_try_def)


lemma fst_execute_command_client:
  "fst (execute_command env (Some ssh) c t tr) = fst (execute_command env (Some SSHClient) c t [])"
  by (simp add: execute_command_def execute_command_try_def split: option.splits sum.splits fault.splits)

lemma snd_execute_command:
  "\<exists>evs. snd (execute_command env ssh c t tr) = tr @ evs \<and> Close \<notin> set evs \<and> (\<forall>a. Open a \<notin> set evs)"
  by (simp add: execute_command_def execute_command_try_def split: option.splits sum.splits fault.splits)

lemma collect_loop_trace:
  "\<exists>evs. snd (collect_loop env ssh cmds data tr) = tr @ evs \<and> Close \<notin> set evs \<and> (\<forall>a. Open a \<notin> set evs)"
proof (induction cmds arbitrary: data tr)
  case Nil
  show ?case by simp
next
  case (Cons cmd cmds)
  let ?tr0 = "tr @ [Log INFO (lit ''Executando comando: '' @ cmd)]"
  obtain r tr1 where ex: "execute_command env (Some ssh) cmd 30 ?tr0 = (r, tr1)"
    by (cases "execute_command env (Some ssh) cmd 30 ?tr0")
  from snd_execute_command [of env "Some ssh" cmd 30 ?tr0] ex
  obtain evs1 where tr1: "tr1 = ?tr0 @ evs1" "Close \<notin> set evs1" "\<forall>a. Open a \<notin> set evs1"
    by auto
  show ?case
  proof (cases r)
    case (Inl f)
    with ex tr1 show ?thesis by simp
  next
    case (Inr res)
    show ?thesis
    proof (cases res)
      case None
      let ?tr2 = "tr1 @ [Log WARNING (lit ''Comando '' @ cmd @ lit '' falhou'')]"
      from Cons.IH [of data ?tr2] obtain evs2 where
        "snd (collect_loop env ssh cmds data ?tr2) = ?tr2 @ evs2" "Close \<notin> set evs2" "\<forall>a. Open a \<notin> set evs2"
        by blast
      with ex Inr None tr1 show ?thesis by simp
    next
      case (Some out)
      from Cons.IH [of "dict_setitem data cmd out" tr1] obtain evs2 where
        "snd (collect_loop env ssh cmds (dict_setitem data cmd out) tr1) = tr1 @ evs2"
        "Close \<notin> set evs2" "\<forall>a. Open a \<notin> set evs2"
        by blast
      with ex Inr Some tr1 show ?thesis by simp
    qed
  qed
qed

lemma distinct_commands: "distinct commands"
  by (simp add: commands_def lit_def)

lemma dict_setitem_fresh: "k \<notin> fst ` set d \<Longrightarrow> dict_setitem d k v = d @ [(k, v)]"
  by (induction d) auto

lemma fst_entries: "map fst (entries env cmds) = filter (gave_output env) cmds"
  by (induction cmds) (auto simp: entries_def gave_output_def split: sum.splits option.splits)

lemma snd_entries: "(c, out) \<in> set (entries env cmds) \<longleftrightarrow> c \<in> set cmds \<and> executor_result env c = Inr (Some out)"
  by (induction cmds) (auto simp: entries_def split: sum.splits option.splits)

lemma collect_loop_result:
  assumes "\<forall>c \<in> set cmds. \<exists>r. executor_result env c = Inr r"
    and "distinct cmds" and "set cmds \<inter> fst ` set data = {}"
  shows "fst (collect_loop env ssh cmds data tr) = Inr (data @ entries env cmds)"
  using assms
proof (induction cmds arbitrary: data tr)
  case Nil
  show ?case by (simp add: entries_def)
next
  case (Cons cmd cmds)
  let ?tr0 = "tr @ [Log INFO (lit ''Executando comando: '' @ cmd)]"
  obtain r tr1 where ex: "execute_command env (Some ssh) cmd 30 ?tr0 = (r, tr1)"
    by (cases "execute_command env (Some ssh) cmd 30 ?tr0")
  have r: "executor_result env cmd = r"
    using ex fst_execute_command_client [of env ssh cmd 30 ?tr0] by (simp add: executor_result_def)
  from Cons.prems(1) r obtain res where res: "r = Inr res" by auto
  have later: "\<forall>c \<in> set cmds. \<exists>r. executor_result env c = Inr r" "distinct cmds"
    using Cons.prems by auto
  show ?case
  proof (cases res)
    case None
    have "fst (collect_loop env ssh cmds data (tr1 @ [Log WARNING (lit ''Comando '' @ cmd @ lit '' falhou'')]))
            = Inr (data @ entries env cmds)"
      using Cons.IH later Cons.prems(3) by auto
    moreover have "entries env (cmd # cmds) = entries env cmds"
      using r res None by (simp add: entries_def)
    ultimately show ?thesis using ex res None by simp
  next
    case (Some out)
    have fresh: "cmd \<notin> fst ` set data" using Cons.prems(3) by auto
    have disj: "set cmds \<inter> fst ` set (dict_setitem data cmd out) = {}"
      using Cons.prems(2,3) by (auto simp: dict_setitem_fresh [OF fresh])
    have "fst (collect_loop env ssh cmds (dict_setitem data cmd out) tr1)
            = Inr (dict_setitem data cmd out @ entries env cmds)"
      using Cons.IH [OF later disj] .
    moreover have "entries env (cmd # cmds) = (cmd, out) # entries env cmds"
      using r res Some by (simp add: entries_def)
    ultimately show ?thesis using ex res Some by (simp add: dict_setitem_fresh [OF fresh])
  qed
qed

lemma connect_switch_ok:
  "ssh_connect env ip username password = Inr u \<Longrightarrow>
   connect_switch env ip username password tr =
     (Inr (Some SSHClient), tr @ [Open ip, Log INFO (lit ''Conex'' @ [227] @ lit ''o estabelecida com '' @ ip)])"
  by (simp add: connect_switch_def)

lemma collect_switch_data_result:
  assumes "ssh_connect env ip username password = Inr u"
    and "\<forall>c \<in> set commands. \<exists>r. executor_result env c = Inr r"
  shows "fst (collect_switch_data env ip username password tr) =
           Inr (if entries env commands \<noteq> [] then Some (entries env commands) else None)"
proof -
  let ?tr1 = "tr @ [Open ip, Log INFO (lit ''Conex'' @ [227] @ lit ''o estabelecida com '' @ ip)]"
  have "fst (collect_loop env SSHClient commands [] ?tr1) = Inr (entries env commands)"
    using collect_loop_result [OF assms(2) distinct_commands, of "[]" SSHClient ?tr1] by simp
  then show ?thesis
    using connect_switch_ok [OF assms(1)]
    by (cases "collect_loop env SSHClient commands [] ?tr1") (simp add: collect_switch_data_def)
qed

lemma count_list_absent: "x \<notin> set xs \<Longrightarrow> count_list xs x = 0"
  by (induction xs) auto

lemma collect_switch_data_trace:
  assumes "ssh_connect env ip username password = Inr u"
  shows "\<exists>evs msg. snd (collect_switch_data env ip username password tr)
                  = tr @ Open ip # evs @ [Close, Log INFO msg]
           \<and> Close \<notin> set evs"
proof -
  let ?m1 = "lit ''Conex'' @ [227] @ lit ''o estabelecida com '' @ ip"
  let ?m2 = "lit ''Conex'' @ [227] @ lit ''o SSH fechada''"
  let ?tr1 = "tr @ [Open ip, Log INFO ?m1]"
  obtain r tr2 where loop: "collect_loop env SSHClient commands [] ?tr1 = (r, tr2)"
    by (cases "collect_loop env SSHClient commands [] ?tr1")
  from collect_loop_trace [of env SSHClient commands "[]" ?tr1] loop
  obtain mid where mid: "tr2 = ?tr1 @ mid" "Close \<notin> set mid"
    by auto
  have final: "snd (collect_switch_data env ip username password tr) = tr2 @ [Close, Log INFO ?m2]"
    using connect_switch_ok [OF assms, of tr] loop
    by (cases r) (simp_all add: collect_switch_data_def)
  have "snd (collect_switch_data env ip username password tr)
          = tr @ Open ip # (Log INFO ?m1 # mid) @ [Close, Log INFO ?m2]"
    using final mid(1) by simp
  moreover have "Close \<notin> set (Log INFO ?m1 # mid)" using mid(2) by simp
  ultimately show ?thesis by blast
qed

lemma closed_once:
  assumes "tr' = tr @ Open ip # evs @ [Close, Log INFO msg]" and "Close \<notin> set evs"
  shows "count_list (drop (length tr) tr') Close = 1" and "\<not> session_open tr'"
  using assms count_list_absent [OF assms(2)] by (simp_all add: session_open_def)

lemma completes_or_faults:
  "(\<exists>out err. completes env cmd t out err) \<or> (\<exists>f. faults_with env cmd t f)"
proof (cases "exec_command env cmd t")
  case (Inl f)
  then have "faults_with env cmd t f" by (simp add: faults_with_def)
  then show ?thesis by blast
next
  case (Inr st)
  show ?thesis
  proof (cases "stdout_read st")
    case (Inl f)
    with Inr have "faults_with env cmd t f" by (simp add: faults_with_def)
    then show ?thesis by blast
  next
    case out: (Inr out)
    show ?thesis
    proof (cases "stderr_read st")
      case (Inl f)
      with Inr out have "faults_with env cmd t f" by (simp add: faults_with_def)
      then show ?thesis by blast
    next
      case err: (Inr err)
      with Inr out have "completes env cmd t out err" by (simp add: completes_def)
      then show ?thesis by blast
    qed
  qed
qed

lemma execute_command_completes:
  "completes env cmd t out err \<Longrightarrow>
   execute_command env (Some ssh) cmd t tr =
     (Inr (Some out),
      if err \<noteq> []
      then tr @ [Exec cmd t, Log WARNING (lit ''Erro ao executar '' @ cmd @ lit '': '' @ err)]
      else tr @ [Exec cmd t])"
  by (auto simp: completes_def execute_command_def execute_command_try_def split: sum.splits)


lemma execute_command_passed:
  "faults_with env cmd t (NonException e) \<Longrightarrow>
   execute_command env (Some ssh) cmd t tr = (Inl (NonException e), tr @ [Exec cmd t])"
  by (auto simp: faults_with_def execute_command_def execute_command_try_def split: sum.splits)

lemma execute_command_some_iff:
  "fst (execute_command env (Some ssh) cmd t tr) = Inr (Some out) \<longleftrightarrow> (\<exists>err. completes env cmd t out err)"
  by (auto simp: completes_def execute_command_def execute_command_try_def split: sum.splits fault.splits)

lemma execute_command_none_iff:
  "fst (execute_command env (Some ssh) cmd t tr) = Inr None \<longleftrightarrow> (\<exists>e. faults_with env cmd t (Exception e))"
  by (auto simp: faults_with_def execute_command_def execute_command_try_def split: sum.splits fault.splits)

lemma execute_command_raise_iff:
  "fst (execute_command env (Some ssh) cmd t tr) = Inl f \<longleftrightarrow> (\<exists>e. f = NonException e \<and> faults_with env cmd t f)"
  by (auto simp: faults_with_def execute_command_def execute_command_try_def split: sum.splits fault.splits)






subsection \<open>truncate_text\<close>

lemma length_truncation_marker: "length truncation_marker = 48"
  by (simp add: truncation_marker_def newline_def lit_def)

lemma truncate_text_short:
  "int (length text) \<le> max_chars \<Longrightarrow> truncate_text text max_chars = text"
  by (simp add: truncate_text_def)

lemma truncate_text_long:
  "0 \<le> max_chars \<Longrightarrow> max_chars < int (length text) \<Longrightarrow>
   truncate_text text max_chars = take (nat max_chars) text @ truncation_marker"
  by (simp add: truncate_text_def slice_to_def)

section \<open>The claims\<close>

text \<open>
  C1 (as amended). Against the fixed list of seven pairwise distinct commands: if the
  connection succeeds, every call of the executor returns, and at least one command
  gives output (K is at least 1), then \<open>collect_switch_data\<close> returns a report with
  exactly K entries, keyed by the commands that gave output, in the order of the fixed
  list, each with the output the executor returned for it.
\<close>

theorem collect_switch_data_report_entries:
  assumes "ssh_connect env ip username password = Inr ()"
    and "\<forall>cmd \<in> set commands. \<exists>r. executor_result env cmd = Inr r"
    and "\<exists>cmd \<in> set commands. gave_output env cmd"
  shows "\<exists>report. fst (collect_switch_data env ip username password tr) = Inr (Some report)
           \<and> length report = length (filter (gave_output env) commands)
           \<and> map fst report = filter (gave_output env) commands
           \<and> (\<forall>(cmd, out) \<in> set report. executor_result env cmd = Inr (Some out))"
proof -
  let ?report = "entries env commands"
  from assms(3) have "filter (gave_output env) commands \<noteq> []"
    by (auto simp: filter_empty_conv)
  then have nonempty: "?report \<noteq> []"
    using fst_entries [of env commands] by auto
  have "fst (collect_switch_data env ip username password tr) = Inr (Some ?report)"
    using collect_switch_data_result [OF assms(1,2), of tr] nonempty by simp
  moreover have "map fst ?report = filter (gave_output env) commands"
    by (rule fst_entries)
  moreover from this have "length ?report = length (filter (gave_output env) commands)"
    by (metis length_map)
  moreover have "\<forall>(cmd, out) \<in> set ?report. executor_result env cmd = Inr (Some out)"
    by (auto simp: snd_entries)
  ultimately show ?thesis by blast
qed

text \<open>The scenario run: six of the seven commands give output.\<close>

theorem collect_switch_data_report_entries_witness:
  "ssh_connect scenario_lib (lit ''10.0.0.1'') (lit ''admin'') (lit ''secret'') = Inr ()
   \<and> list_all (\<lambda>cmd. \<exists>r. executor_result scenario_lib cmd = Inr r) commands
   \<and> (\<exists>cmd \<in> set commands. gave_output scenario_lib cmd)
   \<and> (\<exists>report. fst (collect_switch_data scenario_lib (lit ''10.0.0.1'') (lit ''admin'') (lit ''secret'') [])
                   = Inr (Some report)
         \<and> length report = 6
         \<and> map fst report =
             [lit ''show version'', lit ''show system resources'', lit ''show logging log | last 100'',
              lit ''show interface status'', lit ''show ip interface brief'',
              lit ''show processes cpu history''])"
proof -
  have h1: "ssh_connect scenario_lib (lit ''10.0.0.1'') (lit ''admin'') (lit ''secret'') = Inr ()"
    by (simp add: scenario_lib_def)
  have h2: "\<forall>cmd \<in> set commands. \<exists>r. executor_result scenario_lib cmd = Inr r"
    by (simp add: commands_def executor_result_def execute_command_def execute_command_try_def
        scenario_lib_def lit_def)
  have h3: "\<exists>cmd \<in> set commands. gave_output scenario_lib cmd"
    by (simp add: commands_def gave_output_def executor_result_def execute_command_def
        execute_command_try_def scenario_lib_def lit_def)
  have f: "filter (gave_output scenario_lib) commands =
             [lit ''show version'', lit ''show system resources'', lit ''show logging log | last 100'',
              lit ''show interface status'', lit ''show ip interface brief'',
              lit ''show processes cpu history'']"
    by (simp add: commands_def gave_output_def executor_result_def execute_command_def
        execute_command_try_def scenario_lib_def lit_def)
  show ?thesis
    using collect_switch_data_report_entries [OF h1 h2 h3, of "[]"] h1 h2 h3 unfolding f
    by (auto simp: list_all_iff)
qed

text \<open>
  C1 as stated fails when no command gives output (K = 0): the result is \<open>None\<close>, not a
  report with zero entries.
\<close>

theorem collect_switch_data_no_output_counterexample:
  "ssh_connect timeout_lib (lit ''10.0.0.1'') (lit ''admin'') (lit ''secret'') = Inr ()
   \<and> length (filter (gave_output timeout_lib) commands) = 0
   \<and> fst (collect_switch_data timeout_lib (lit ''10.0.0.1'') (lit ''admin'') (lit ''secret'') []) = Inr None
   \<and> fst (collect_switch_data timeout_lib (lit ''10.0.0.1'') (lit ''admin'') (lit ''secret'') []) \<noteq> Inr (Some [])"
  by (simp add: collect_switch_data_def connect_switch_def commands_def gave_output_def
      executor_result_def execute_command_def execute_command_try_def timeout_lib_def)

text \<open>
  C2. Whenever the connection was opened, the trace of \<open>collect_switch_data\<close> ends
  with the one call of \<open>ssh.close()\<close> of the \<open>finally\<close> block: no other close
  happens before it, so close is invoked exactly once, and the session is not open when
  the function returns or lets a fault pass. Nothing is assumed of the loop: the result
  may be a report, \<open>None\<close>, or a fault raised in the middle of the loop.
\<close>

theorem collect_switch_data_closes_once:
  assumes "ssh_connect env ip username password = Inr ()"
  shows "\<exists>evs msg. snd (collect_switch_data env ip username password tr)
                  = tr @ Open ip # evs @ [Close, Log INFO msg]
           \<and> Close \<notin> set evs
           \<and> count_list (drop (length tr) (snd (collect_switch_data env ip username password tr))) Close = 1
           \<and> \<not> session_open (snd (collect_switch_data env ip username password tr))"
proof -
  from collect_switch_data_trace [OF assms, of tr] obtain evs msg where
    shape: "snd (collect_switch_data env ip username password tr) = tr @ Open ip # evs @ [Close, Log INFO msg]"
    and absent: "Close \<notin> set evs"
    by blast
  from shape absent closed_once [OF shape absent] show ?thesis by blast
qed

text \<open>A run interrupted at the third command: the fault passes, the session is closed once.\<close>

theorem collect_switch_data_closes_once_witness:
  "ssh_connect interrupted_lib (lit ''10.0.0.1'') (lit ''admin'') (lit ''secret'') = Inr ()
   \<and> fst (collect_switch_data interrupted_lib (lit ''10.0.0.1'') (lit ''admin'') (lit ''secret'') [])
       = Inl (NonException (lit ''KeyboardInterrupt''))
   \<and> count_list (snd (collect_switch_data interrupted_lib (lit ''10.0.0.1'') (lit ''admin'') (lit ''secret'') [])) Close = 1
   \<and> \<not> session_open (snd (collect_switch_data interrupted_lib (lit ''10.0.0.1'') (lit ''admin'') (lit ''secret'') []))"
proof -
  have h: "ssh_connect interrupted_lib (lit ''10.0.0.1'') (lit ''admin'') (lit ''secret'') = Inr ()"
    by (simp add: interrupted_lib_def)
  have r: "fst (collect_switch_data interrupted_lib (lit ''10.0.0.1'') (lit ''admin'') (lit ''secret'') [])
       = Inl (NonException (lit ''KeyboardInterrupt''))"
    by (simp add: collect_switch_data_def connect_switch_def commands_def execute_command_def
        execute_command_try_def interrupted_lib_def lit_def)
  show ?thesis
    using collect_switch_data_closes_once [OF h, of "[]"] h r by auto
qed

text \<open>
  C3. When \<open>connect_switch\<close> returns \<open>None\<close>, \<open>collect_switch_data\<close> returns
  \<open>None\<close> and adds to the trace the error record of the failed connection and
  nothing else: no command is sent, nothing is closed, no report exists.
\<close>

theorem collect_switch_data_connect_failure:
  assumes "fst (connect_switch env ip username password tr) = Inr None"
  shows "fst (collect_switch_data env ip username password tr) = Inr None
         \<and> (\<exists>e. ssh_connect env ip username password = Inl (Exception e)
                \<and> snd (collect_switch_data env ip username password tr)
                    = tr @ [Log ERROR (lit ''Erro ao conectar ao switch '' @ ip @ lit '': '' @ e)])"
  using assms
  by (auto simp: collect_switch_data_def connect_switch_def split: sum.splits fault.splits)

text \<open>A rejected password.\<close>

theorem collect_switch_data_connect_failure_witness:
  "fst (connect_switch refusing_lib (lit ''10.0.0.1'') (lit ''admin'') (lit ''wrong'') []) = Inr None
   \<and> fst (collect_switch_data refusing_lib (lit ''10.0.0.1'') (lit ''admin'') (lit ''wrong'') []) = Inr None
   \<and> snd (collect_switch_data refusing_lib (lit ''10.0.0.1'') (lit ''admin'') (lit ''wrong'') [])
       = [Log ERROR (lit ''Erro ao conectar ao switch 10.0.0.1: Authentication failed.'')]"
proof -
  have h: "fst (connect_switch refusing_lib (lit ''10.0.0.1'') (lit ''admin'') (lit ''wrong'') []) = Inr None"
    by (simp add: connect_switch_def refusing_lib_def)
  have e: "ssh_connect refusing_lib (lit ''10.0.0.1'') (lit ''admin'') (lit ''wrong'')
             = Inl (Exception (lit ''Authentication failed.''))"
    by (simp add: refusing_lib_def)
  have l: "lit ''Erro ao conectar ao switch '' @ lit ''10.0.0.1'' @ lit '': '' @ lit ''Authentication failed.''
             = lit ''Erro ao conectar ao switch 10.0.0.1: Authentication failed.''"
    by (simp add: lit_def)
  show ?thesis
    using collect_switch_data_connect_failure [OF h] h e l by auto
qed

text \<open>
  C4. If the connection succeeds and the executor returns \<open>None\<close> for each of the
  commands, \<open>collect_switch_data\<close> returns \<open>None\<close> and the session is closed exactly
  once; and a report that \<open>collect_switch_data\<close> returns is never empty.
\<close>

theorem collect_switch_data_all_failed:
  "(ssh_connect env ip username password = Inr () \<and>
    (\<forall>cmd \<in> set commands. executor_result env cmd = Inr None) \<longrightarrow>
      fst (collect_switch_data env ip username password tr) = Inr None
      \<and> count_list (drop (length tr) (snd (collect_switch_data env ip username password tr))) Close = 1
      \<and> \<not> session_open (snd (collect_switch_data env ip username password tr)))
   \<and> (\<forall>report. fst (collect_switch_data env ip username password tr) = Inr (Some report)
         \<longrightarrow> report \<noteq> [])"
proof (intro conjI impI allI)
  assume a: "ssh_connect env ip username password = Inr () \<and>
    (\<forall>cmd \<in> set commands. executor_result env cmd = Inr None)"
  then have c: "ssh_connect env ip username password = Inr ()"
    and ret: "\<forall>c \<in> set commands. \<exists>r. executor_result env c = Inr r"
    and none: "\<forall>cmd \<in> set commands. \<not> gave_output env cmd"
    by (auto simp: gave_output_def)
  from none have "filter (gave_output env) commands = []" by (simp add: filter_empty_conv)
  then have "entries env commands = []"
    using fst_entries [of env commands] by simp
  then show "fst (collect_switch_data env ip username password tr) = Inr None"
    using collect_switch_data_result [OF c ret, of tr] by simp
  from collect_switch_data_trace [OF c, of tr] obtain evs msg where
    shape: "snd (collect_switch_data env ip username password tr) = tr @ Open ip # evs @ [Close, Log INFO msg]"
    and absent: "Close \<notin> set evs"
    by blast
  show "count_list (drop (length tr) (snd (collect_switch_data env ip username password tr))) Close = 1"
    by (rule closed_once(1) [OF shape absent])
  show "\<not> session_open (snd (collect_switch_data env ip username password tr))"
    by (rule closed_once(2) [OF shape absent])
next
  fix report
  assume "fst (collect_switch_data env ip username password tr) = Inr (Some report)"
  then show "report \<noteq> []"
    by (auto simp: collect_switch_data_def split: prod.splits sum.splits option.splits if_splits)
qed

text \<open>Every command times out; and the scenario run, whose report is not empty.\<close>

theorem collect_switch_data_all_failed_witness:
  "ssh_connect timeout_lib (lit ''10.0.0.1'') (lit ''admin'') (lit ''secret'') = Inr ()
   \<and> list_all (\<lambda>cmd. executor_result timeout_lib cmd = Inr None) commands
   \<and> fst (collect_switch_data timeout_lib (lit ''10.0.0.1'') (lit ''admin'') (lit ''secret'') []) = Inr None
   \<and> count_list (snd (collect_switch_data timeout_lib (lit ''10.0.0.1'') (lit ''admin'') (lit ''secret'') [])) Close = 1
   \<and> fst (collect_switch_data scenario_lib (lit ''10.0.0.1'') (lit ''admin'') (lit ''secret'') [])
        = Inr (Some (entries scenario_lib commands))
   \<and> entries scenario_lib commands \<noteq> []"
proof -
  have h1: "ssh_connect timeout_lib (lit ''10.0.0.1'') (lit ''admin'') (lit ''secret'') = Inr ()"
    by (simp add: timeout_lib_def)
  have h2: "\<forall>cmd \<in> set commands. executor_result timeout_lib cmd = Inr None"
    by (simp add: executor_result_def execute_command_def execute_command_try_def timeout_lib_def)
  have s1: "ssh_connect scenario_lib (lit ''10.0.0.1'') (lit ''admin'') (lit ''secret'') = Inr ()"
    by (simp add: scenario_lib_def)
  have s2: "\<forall>cmd \<in> set commands. \<exists>r. executor_result scenario_lib cmd = Inr r"
    by (simp add: commands_def executor_result_def execute_command_def execute_command_try_def
        scenario_lib_def lit_def)
  have s3: "entries scenario_lib commands \<noteq> []"
    by (simp add: entries_def commands_def executor_result_def execute_command_def execute_command_try_def
        scenario_lib_def lit_def)
  have s4: "fst (collect_switch_data scenario_lib (lit ''10.0.0.1'') (lit ''admin'') (lit ''secret'') [])
        = Inr (Some (entries scenario_lib commands))"
    using collect_switch_data_result [OF s1 s2, of "[]"] s3 by simp
  show ?thesis
    using collect_switch_data_all_failed [of timeout_lib "lit ''10.0.0.1''" "lit ''admin''" "lit ''secret''" "[]"]
      collect_switch_data_all_failed [of scenario_lib "lit ''10.0.0.1''" "lit ''admin''" "lit ''secret''" "[]"]
      h1 h2 s4
    by (auto simp: list_all_iff)
qed



text \<open>
  C6 (as amended). The value \<open>execute_command\<close> returns tells two cases apart, not
  three: a string exactly when the remote execution completed, whatever the error text,
  and \<open>None\<close> exactly when a fault of class \<open>Exception\<close> was caught. Whether a
  completed execution warned shows in the log only: a WARNING record is written exactly
  when the error text is not empty.
\<close>

theorem execute_command_two_results:
  "(fst (execute_command env (Some ssh) cmd t tr) = Inr (Some out) \<longleftrightarrow> (\<exists>err. completes env cmd t out err))
   \<and> (fst (execute_command env (Some ssh) cmd t tr) = Inr None \<longleftrightarrow> (\<exists>e. faults_with env cmd t (Exception e)))
   \<and> (completes env cmd t out err \<longrightarrow>
        fst (execute_command env (Some ssh) cmd t tr) = Inr (Some out)
        \<and> ((\<exists>msg. Log WARNING msg \<in> set (snd (execute_command env (Some ssh) cmd t []))) \<longleftrightarrow> err \<noteq> []))"
proof (intro conjI impI)
  show "fst (execute_command env (Some ssh) cmd t tr) = Inr (Some out) \<longleftrightarrow> (\<exists>err. completes env cmd t out err)"
    by (rule execute_command_some_iff)
  show "fst (execute_command env (Some ssh) cmd t tr) = Inr None \<longleftrightarrow> (\<exists>e. faults_with env cmd t (Exception e))"
    by (rule execute_command_none_iff)
next
  assume c: "completes env cmd t out err"
  from execute_command_completes [OF c, of ssh tr]
  show "fst (execute_command env (Some ssh) cmd t tr) = Inr (Some out)" by simp
  from execute_command_completes [OF c, of ssh "[]"]
  show "(\<exists>msg. Log WARNING msg \<in> set (snd (execute_command env (Some ssh) cmd t []))) \<longleftrightarrow> err \<noteq> []"
    by simp
qed

text \<open>
  A command that warns: a string is returned and a WARNING record logged.
\<close>

theorem execute_command_two_results_witness:
  "completes noisy_lib (lit ''show version'') 30 (lit ''ok'') (lit ''% truncated'')
   \<and> fst (execute_command noisy_lib (Some SSHClient) (lit ''show version'') 30 []) = Inr (Some (lit ''ok''))
   \<and> (\<exists>msg. Log WARNING msg \<in> set (snd (execute_command noisy_lib (Some SSHClient) (lit ''show version'') 30 [])))"
proof -
  have c: "completes noisy_lib (lit ''show version'') 30 (lit ''ok'') (lit ''% truncated'')"
    by (simp add: completes_def noisy_lib_def)
  have ne: "lit ''% truncated'' \<noteq> []" by (simp add: lit_def)
  from execute_command_two_results
    [of noisy_lib SSHClient "lit ''show version''" 30 "[]" "lit ''ok''" "lit ''% truncated''"] c ne
  show ?thesis by blast
qed

text \<open>
  C6 as stated fails: an execution that is Ok and one that is a Warning return the same
  value.
\<close>

theorem execute_command_ok_warning_counterexample:
  "completes quiet_lib (lit ''show version'') 30 (lit ''ok'') []
   \<and> completes noisy_lib (lit ''show version'') 30 (lit ''ok'') (lit ''% truncated'')
   \<and> lit ''% truncated'' \<noteq> []
   \<and> fst (execute_command quiet_lib (Some SSHClient) (lit ''show version'') 30 [])
       = fst (execute_command noisy_lib (Some SSHClient) (lit ''show version'') 30 [])"
  by (simp add: completes_def execute_command_def execute_command_try_def quiet_lib_def noisy_lib_def lit_def)

text \<open>
  C7 (as amended). For every report and every bound \<open>max_chars\<close> that is not
  negative: when the formatted text is no longer than \<open>max_chars\<close>, \<open>truncate_text\<close>
  returns it unchanged; otherwise it returns its first \<open>max_chars\<close> characters followed
  by the marker; in both cases the result is at most \<open>max_chars\<close> plus the marker's
  length (48) long.
\<close>

theorem truncate_text_law:
  assumes "0 \<le> max_chars"
  shows "(int (length (formatted_data report)) \<le> max_chars \<longrightarrow>
            truncate_text (formatted_data report) max_chars = formatted_data report)
       \<and> (max_chars < int (length (formatted_data report)) \<longrightarrow>
            truncate_text (formatted_data report) max_chars
              = take (nat max_chars) (formatted_data report) @ truncation_marker
            \<and> int (length (take (nat max_chars) (formatted_data report))) = max_chars)
       \<and> int (length (truncate_text (formatted_data report) max_chars))
            \<le> max_chars + int (length truncation_marker)
       \<and> length truncation_marker = 48"
proof (cases "int (length (formatted_data report)) \<le> max_chars")
  case True
  then show ?thesis by (simp add: truncate_text_short length_truncation_marker)
next
  case False
  then have long: "max_chars < int (length (formatted_data report))" by simp
  have cut: "int (length (take (nat max_chars) (formatted_data report))) = max_chars"
    using assms long by simp
  from truncate_text_long [OF assms long] cut long show ?thesis
    by (simp add: length_truncation_marker)
qed

text \<open>
  A report of 21 characters, cut at 10 and left alone at the default 3000.
\<close>

theorem truncate_text_law_witness:
  "(0::int) \<le> 10
   \<and> formatted_data [(lit ''show version'', lit ''7.0(3)'')] = lit ''show version:'' @ newline @ lit ''7.0(3)'' @ newline
   \<and> truncate_text (formatted_data [(lit ''show version'', lit ''7.0(3)'')]) 10
        = lit ''show versi'' @ truncation_marker
   \<and> int (length (truncate_text (formatted_data [(lit ''show version'', lit ''7.0(3)'')]) 10))
        \<le> 10 + int (length truncation_marker)
   \<and> truncate_text (formatted_data [(lit ''show version'', lit ''7.0(3)'')]) 3000
        = formatted_data [(lit ''show version'', lit ''7.0(3)'')]"
proof -
  have f: "formatted_data [(lit ''show version'', lit ''7.0(3)'')] = lit ''show version:'' @ newline @ lit ''7.0(3)'' @ newline"
    by (simp add: formatted_data_def lit_def)
  have l: "length (formatted_data [(lit ''show version'', lit ''7.0(3)'')]) = 21"
    unfolding f by (simp add: lit_def newline_def)
  have t: "take 10 (formatted_data [(lit ''show version'', lit ''7.0(3)'')]) = lit ''show versi''"
    unfolding f by (simp add: lit_def)
  from truncate_text_law [of 10 "[(lit ''show version'', lit ''7.0(3)'')]"]
    truncate_text_law [of 3000 "[(lit ''show version'', lit ''7.0(3)'')]"] l t f
  show ?thesis by simp
qed

text \<open>
  C7 as stated fails for a negative bound: \<open>text[:-1]\<close> drops the last character
  only, and the result is longer than \<open>max_chars\<close> plus the marker.
\<close>

theorem truncate_text_negative_counterexample:
  "int (length (formatted_data [(lit ''show version'', lit ''7.0(3)'')])) > - 1
   \<and> truncate_text (formatted_data [(lit ''show version'', lit ''7.0(3)'')]) (- 1)
        = lit ''show version:'' @ newline @ lit ''7.0(3)'' @ truncation_marker
   \<and> int (length (truncate_text (formatted_data [(lit ''show version'', lit ''7.0(3)'')]) (- 1)))
        > - 1 + int (length truncation_marker)"
  by (simp add: formatted_data_def truncate_text_def slice_to_def truncation_marker_def newline_def lit_def)




text \<open>
  C9 (as amended). \<open>connect_switch\<close> and \<open>execute_command\<close> never let a fault of
  class \<open>Exception\<close> pass. When no operation of the library raises a fault outside
  that class, \<open>connect_switch\<close> returns a client or \<open>None\<close> and \<open>execute_command\<close>
  returns a string or \<open>None\<close>. A fault outside the class (\<open>KeyboardInterrupt\<close>,
  \<open>SystemExit\<close>) is not caught by \<open>except Exception\<close> and goes on to the caller.
\<close>

theorem faults_caught_or_passed:
  "(\<forall>e. fst (connect_switch env ip username password tr) \<noteq> Inl (Exception e))
   \<and> (\<forall>e. fst (execute_command env ssh cmd t tr) \<noteq> Inl (Exception e))
   \<and> ((\<forall>m. ssh_connect env ip username password \<noteq> Inl (NonException m)) \<longrightarrow>
        fst (connect_switch env ip username password tr) = Inr (Some SSHClient)
        \<or> fst (connect_switch env ip username password tr) = Inr None)
   \<and> ((\<forall>m. \<not> faults_with env cmd t (NonException m)) \<longrightarrow>
        (\<exists>out. fst (execute_command env ssh cmd t tr) = Inr (Some out))
        \<or> fst (execute_command env ssh cmd t tr) = Inr None)
   \<and> (ssh_connect env ip username password = Inl (NonException m) \<longrightarrow>
        fst (connect_switch env ip username password tr) = Inl (NonException m))
   \<and> (faults_with env cmd t (NonException m) \<longrightarrow>
        fst (execute_command env (Some c) cmd t tr) = Inl (NonException m))"
proof (intro conjI impI allI)
  fix e
  show "fst (connect_switch env ip username password tr) \<noteq> Inl (Exception e)"
    by (simp add: connect_switch_def split: sum.splits fault.splits)
  show "fst (execute_command env ssh cmd t tr) \<noteq> Inl (Exception e)"
    by (simp add: execute_command_def split: prod.splits sum.splits fault.splits)
next
  assume "\<forall>m. ssh_connect env ip username password \<noteq> Inl (NonException m)"
  then show "fst (connect_switch env ip username password tr) = Inr (Some SSHClient)
        \<or> fst (connect_switch env ip username password tr) = Inr None"
    by (simp add: connect_switch_def split: sum.splits fault.splits)
next
  assume a: "\<forall>m. \<not> faults_with env cmd t (NonException m)"
  show "(\<exists>out. fst (execute_command env ssh cmd t tr) = Inr (Some out))
        \<or> fst (execute_command env ssh cmd t tr) = Inr None"
  proof (cases ssh)
    case None
    then show ?thesis using execute_command_none [of env cmd t tr] by simp
  next
    case (Some c)
    show ?thesis
    proof (cases "fst (execute_command env (Some c) cmd t tr)")
      case (Inl f)
      with a show ?thesis by (auto simp: execute_command_raise_iff)
    next
      case (Inr r)
      with Some show ?thesis by (cases r) simp_all
    qed
  qed
next
  assume "ssh_connect env ip username password = Inl (NonException m)"
  then show "fst (connect_switch env ip username password tr) = Inl (NonException m)"
    by (simp add: connect_switch_def)
next
  assume "faults_with env cmd t (NonException m)"
  then show "fst (execute_command env (Some c) cmd t tr) = Inl (NonException m)"
    by (simp add: execute_command_passed)
qed

text \<open>
  A rejected password and a command that times out: both are turned into \<open>None\<close>.
\<close>

theorem faults_caught_or_passed_witness:
  "(fst (connect_switch refusing_lib (lit ''10.0.0.1'') (lit ''admin'') (lit ''wrong'') []) = Inr (Some SSHClient)
      \<or> fst (connect_switch refusing_lib (lit ''10.0.0.1'') (lit ''admin'') (lit ''wrong'') []) = Inr None)
   \<and> ((\<exists>out. fst (execute_command timeout_lib (Some SSHClient) (lit ''show version'') 30 []) = Inr (Some out))
      \<or> fst (execute_command timeout_lib (Some SSHClient) (lit ''show version'') 30 []) = Inr None)"
proof -
  have h1: "\<forall>m. ssh_connect refusing_lib (lit ''10.0.0.1'') (lit ''admin'') (lit ''wrong'') \<noteq> Inl (NonException m)"
    by (simp add: refusing_lib_def)
  have h2: "\<forall>m. \<not> faults_with timeout_lib (lit ''show version'') 30 (NonException m)"
    by (simp add: faults_with_def timeout_lib_def)
  from faults_caught_or_passed
    [of refusing_lib "lit ''10.0.0.1''" "lit ''admin''" "lit ''wrong''" "[]"] h1
  have 1: "fst (connect_switch refusing_lib (lit ''10.0.0.1'') (lit ''admin'') (lit ''wrong'') []) = Inr (Some SSHClient)
      \<or> fst (connect_switch refusing_lib (lit ''10.0.0.1'') (lit ''admin'') (lit ''wrong'') []) = Inr None"
    by blast
  from faults_caught_or_passed
    [of timeout_lib _ _ _ "[]" "Some SSHClient" "lit ''show version''" 30] h2
  have 2: "(\<exists>out. fst (execute_command timeout_lib (Some SSHClient) (lit ''show version'') 30 []) = Inr (Some out))
      \<or> fst (execute_command timeout_lib (Some SSHClient) (lit ''show version'') 30 []) = Inr None"
    by blast
  from 1 2 show ?thesis by blast
qed

text \<open>
  C9 as stated fails: an interrupt raised inside the library's call passes through both
  functions.
\<close>

theorem interrupt_propagates_counterexample:
  "fst (connect_switch aborted_lib (lit ''10.0.0.1'') (lit ''admin'') (lit ''secret'') [])
     = Inl (NonException (lit ''KeyboardInterrupt''))
   \<and> fst (execute_command aborted_lib (Some SSHClient) (lit ''show version'') 30 [])
     = Inl (NonException (lit ''KeyboardInterrupt''))"
  by (simp add: connect_switch_def execute_command_def execute_command_try_def aborted_lib_def)



end
